theory Spec2Isabelle
  imports Complex_Main "HOL-Library.Sublist"
begin

section \<open>JavaScript values and strings\<close>

text \<open>
  The conversation service receives the results of \<open>JSON.parse\<close> (extracted information,
  sentiment) and inspects them with truthiness tests, property reads and method calls.
  A value of that kind is one of the following. A number is a double other than NaN
  (which \<open>JSON.parse\<close> never yields); only the test against zero is used on it.
  An object is the list of its own properties; its keys are distinct once parsed.

  A JavaScript string is a sequence of UTF-16 code units. The model uses \<open>string\<close>, whose
  characters are the code units below 256; this covers ASCII and Latin-1 text.
\<close>

datatype js =
    JUndefined
  | JNull
  | JBool bool
  | JNum real
  | JStr string
  | JArr "js list"
  | JObj "(string \<times> js) list"

datatype error = TypeError | SaveFailed | StatsFailed

text \<open>Truthiness, as used by \<open>if (v)\<close>, \<open>v || w\<close> and \<open>v && w\<close>.\<close>

fun truthy :: "js \<Rightarrow> bool" where
  "truthy JUndefined = False"
| "truthy JNull = False"
| "truthy (JBool b) = b"
| "truthy (JNum x) = (x \<noteq> 0)"
| "truthy (JStr s) = (s \<noteq> [])"
| "truthy (JArr xs) = True"
| "truthy (JObj kvs) = True"

text \<open>
  The property read \<open>v.name\<close> for the data property names this code reads (\<open>nextSteps\<close>,
  \<open>interests\<close>, \<open>overall\<close>, \<open>score\<close>, \<open>budget\<close>, ...): none of them is defined on a
  prototype, so the read yields the own property of an object, \<open>undefined\<close> on any other
  value, and throws a TypeError on \<open>null\<close> and \<open>undefined\<close>.
\<close>

fun js_get :: "js \<Rightarrow> string \<Rightarrow> error + js" where
  "js_get JUndefined name = Inl TypeError"
| "js_get JNull name = Inl TypeError"
| "js_get (JObj kvs) name = Inr (case map_of kvs name of None \<Rightarrow> JUndefined | Some v \<Rightarrow> v)"
| "js_get v name = Inr JUndefined"

text \<open>\<open>String.prototype.toLowerCase\<close> on code units below 256: A-Z and the Latin-1 capitals
  (U+00C0 to U+00DE without the multiplication sign U+00D7) move up by 32.\<close>

definition toLowerCase_unit :: "char \<Rightarrow> char" where
  "toLowerCase_unit c =
     (let n = (of_char c :: nat)
      in if (65 \<le> n \<and> n \<le> 90) \<or> (192 \<le> n \<and> n \<le> 222 \<and> n \<noteq> 215)
         then char_of (n + 32) else c)"

definition toLowerCase :: "string \<Rightarrow> string" where
  "toLowerCase s = map toLowerCase_unit s"

text \<open>\<open>String.prototype.includes\<close>: \<open>str_includes s p\<close> is \<open>s.includes(p)\<close>.\<close>

fun str_includes :: "string \<Rightarrow> string \<Rightarrow> bool" where
  "str_includes [] p = (p = [])"
| "str_includes (c # cs) p = (prefix p (c # cs) \<or> str_includes cs p)"

text \<open>
  The method call \<open>v.includes(p)\<close> with a string argument: substring test on a string,
  membership on an array; any other value has no callable \<open>includes\<close> (an object parsed
  from JSON holds no functions), so the call throws a TypeError.
\<close>

fun js_includes :: "js \<Rightarrow> string \<Rightarrow> error + bool" where
  "js_includes (JStr s) p = Inr (str_includes s p)"
| "js_includes (JArr xs) p = Inr (list_ex (\<lambda>x. x = JStr p) xs)"
| "js_includes v p = Inl TypeError"

text \<open>\<open>String.prototype.trim\<close>: white space and line terminators below 256.\<close>

definition is_space :: "char \<Rightarrow> bool" where
  "is_space c = ((of_char c :: nat) \<in> {9, 10, 11, 12, 13, 32, 160})"

definition trim :: "string \<Rightarrow> string" where
  "trim s = rev (dropWhile is_space (rev (dropWhile is_space s)))"

section \<open>Termination detector: \<open>shouldEndCall\<close>\<close>

definition terminationPhrases :: "string list" where
  "terminationPhrases =
     [''remove me'', ''take me off'', ''do not call'', ''not interested'', ''stop calling'',
      ''unsubscribe'', ''wrong number'', ''goodbye'', ''hang up'', ''end call'']"

definition shouldEndCall :: "string \<Rightarrow> bool" where
  "shouldEndCall customerSpeech =
     (let lowerSpeech = toLowerCase customerSpeech
      in list_ex (\<lambda>phrase. str_includes lowerSpeech phrase) terminationPhrases)"

text \<open>
  Letter case as the specification means it, by the alphabet: \<open>spec_lowercase\<close> turns
  each capital letter into its small letter, \<open>spec_uppercase\<close> each small letter into its
  capital, and both leave every other character alone.
\<close>

definition capitals :: string where
  "capitals = ''ABCDEFGHIJKLMNOPQRSTUVWXYZ''"

definition smalls :: string where
  "smalls = ''abcdefghijklmnopqrstuvwxyz''"

definition spec_swap :: "string \<Rightarrow> string \<Rightarrow> char \<Rightarrow> char" where
  "spec_swap old new c = (case map_of (zip old new) c of None \<Rightarrow> c | Some d \<Rightarrow> d)"

definition spec_lowercase :: "string \<Rightarrow> string" where
  "spec_lowercase s = map (spec_swap capitals smalls) s"

definition spec_uppercase :: "string \<Rightarrow> string" where
  "spec_uppercase s = map (spec_swap smalls capitals) s"

section \<open>Outcome resolver: \<open>determineCallOutcome\<close>\<close>

record turn =
  speaker :: string
  message :: string
  timestamp :: nat

text \<open>The outcome labels the Call schema declares for its \<open>outcome\<close> field.\<close>

definition outcome_enum :: "string list" where
  "outcome_enum =
     [''sale'', ''interested'', ''not-interested'', ''callback'', ''voicemail'',
      ''wrong-number'', ''no-answer'']"

definition customerMessages :: "turn list \<Rightarrow> turn list" where
  "customerMessages conversationHistory =
     filter (\<lambda>msg. speaker msg = ''customer'') conversationHistory"

definition determineCallOutcome :: "turn list \<Rightarrow> js \<Rightarrow> string \<Rightarrow> error + string" where
  "determineCallOutcome conversationHistory extractedInfo reason =
     (if reason = ''customer-requested'' then Inr ''not-interested''
      else
        case js_get extractedInfo ''nextSteps'' of
          Inl e \<Rightarrow> Inl e
        | Inr nextSteps \<Rightarrow>
           (case (if truthy nextSteps then Inr nextSteps else js_get extractedInfo ''interests'') of
              Inl e \<Rightarrow> Inl e
            | Inr positive \<Rightarrow>
               if truthy positive then Inr ''interested''
               else
                 case (if truthy nextSteps then js_includes nextSteps ''callback''
                       else Inr False) of
                   Inl e \<Rightarrow> Inl e
                 | Inr callback \<Rightarrow>
                    if callback then Inr ''callback''
                    else if length (customerMessages conversationHistory) < 2
                      then Inr ''no-answer''
                    else if length (customerMessages conversationHistory) > 5
                      then Inr ''interested''
                    else Inr ''not-interested''))"

text \<open>
  The number of customer turns of a transcript as the specification means it: one for
  each turn whose speaker is the customer, whatever the other turns are.
\<close>

fun spec_customer_turns :: "turn list \<Rightarrow> nat" where
  "spec_customer_turns [] = 0"
| "spec_customer_turns (t # ts) =
     (if speaker t = ''customer'' then 1 else 0) + spec_customer_turns ts"

section \<open>Lead: \<open>fullName\<close>, \<open>isCallable\<close>, \<open>updateScore\<close>, \<open>scheduleNextCall\<close>\<close>

record lead =
  lead_id :: string
  firstName :: string
  lastName :: "string option"
  phoneNumber :: string
  company :: "string option"
  jobTitle :: "string option"
  status :: string
  score :: int
  totalCalls :: int
  lastCallDate :: "nat option"
  nextCallDate :: "nat option"
  doNotCall :: bool
  doNotCallReason :: "string option"
  budget :: js
  timeframe :: js
  decisionMaker :: js
  topics :: "string list"
  objections :: "string list"

text \<open>\<open>v || ''\<close> for an optional string field.\<close>

definition or_empty :: "string option \<Rightarrow> string" where
  "or_empty v = (case v of None \<Rightarrow> [] | Some s \<Rightarrow> s)"

definition fullName :: "lead \<Rightarrow> string" where
  "fullName this = trim (firstName this @ '' '' @ or_empty (lastName this))"

definition isCallable :: "lead \<Rightarrow> bool" where
  "isCallable this =
     (if doNotCall this then False
      else if status this = ''do-not-call'' then False
      else if status this = ''converted'' then False
      else True)"

text \<open>
  \<open>updateScore\<close> mutates the lead document and then saves it; the function below is the
  mutation, with the clock reading \<open>now\<close> for \<open>new Date()\<close>. The save is issued by the
  caller's model. \<open>score_switch\<close> is its switch statement: the score change and the
  lead after the assignments of the matching case.
\<close>

definition score_switch :: "lead \<Rightarrow> string \<Rightarrow> int \<times> lead" where
  "score_switch this callOutcome =
     (if callOutcome = ''sale'' then (30, this\<lparr>status := ''converted''\<rparr>)
      else if callOutcome = ''interested'' then (20, this\<lparr>status := ''interested''\<rparr>)
      else if callOutcome = ''callback'' then (10, this\<lparr>status := ''callback''\<rparr>)
      else if callOutcome = ''not-interested'' then (- 15, this\<lparr>status := ''not-interested''\<rparr>)
      else if callOutcome = ''wrong-number''
        then (- 30, this\<lparr>status := ''do-not-call'', doNotCall := True,
                          doNotCallReason := Some ''Wrong number''\<rparr>)
      else (- 5, this))"

definition updateScore :: "lead \<Rightarrow> string \<Rightarrow> js \<Rightarrow> nat \<Rightarrow> error + lead" where
  "updateScore this callOutcome sentiment now =
     (case score_switch this callOutcome of
        (scoreChange, this1) \<Rightarrow>
          (case (if truthy sentiment
                 then (case js_get sentiment ''overall'' of
                         Inl e \<Rightarrow> Inl e
                       | Inr overall \<Rightarrow>
                           if overall = JStr ''positive'' then Inr (scoreChange + 5)
                           else if overall = JStr ''negative'' then Inr (scoreChange - 5)
                           else Inr scoreChange)
                 else Inr scoreChange) of
             Inl e \<Rightarrow> Inl e
           | Inr scoreChange' \<Rightarrow>
               Inr (this1\<lparr>score := max 0 (min 100 (score this1 + scoreChange')),
                          totalCalls := totalCalls this1 + 1,
                          lastCallDate := Some now\<rparr>)))"

text \<open>The delta table and the sentiment adjustment as the specification words them.\<close>

definition spec_outcome_delta :: "string \<Rightarrow> int" where
  "spec_outcome_delta outcome =
     (if outcome = ''sale'' then 30
      else if outcome = ''interested'' then 20
      else if outcome = ''callback'' then 10
      else if outcome = ''not-interested'' then - 15
      else if outcome = ''wrong-number'' then - 30
      else - 5)"

definition spec_sentiment_adjust :: "js \<Rightarrow> int" where
  "spec_sentiment_adjust sentiment =
     (if js_get sentiment ''overall'' = Inr (JStr ''positive'') then 5
      else if js_get sentiment ''overall'' = Inr (JStr ''negative'') then - 5
      else 0)"

section \<open>Placeholder substitution: \<open>replacePlaceholders\<close>\<close>

text \<open>
  \<open>String.prototype.replace\<close> with a replacement string expands the dollar patterns of the
  replacement (GetSubstitution). The regular expressions used here have no capture group,
  so a dollar sign followed by a digit or by \<open><\<close> stays as it is.
\<close>

fun getSubstitution :: "string \<Rightarrow> string \<Rightarrow> string \<Rightarrow> string \<Rightarrow> string" where
  "getSubstitution matched scanned rest [] = []"
| "getSubstitution matched scanned rest [c] = [c]"
| "getSubstitution matched scanned rest (c # d # ds) =
     (if c = CHR ''$'' \<and> d = CHR ''$'' then CHR ''$'' # getSubstitution matched scanned rest ds
      else if c = CHR ''$'' \<and> d = CHR ''&'' then matched @ getSubstitution matched scanned rest ds
      else if c = CHR ''$'' \<and> d = CHR 0x60 then scanned @ getSubstitution matched scanned rest ds
      else if c = CHR ''$'' \<and> d = CHR 0x27 then rest @ getSubstitution matched scanned rest ds
      else c # getSubstitution matched scanned rest (d # ds))"

definition placeholder :: "string \<Rightarrow> string" where
  "placeholder name = CHR ''{'' # name @ ''}''"

text \<open>
  \<open>text.replace(/\{name\}/g, replacement)\<close>: the matches of the literal \<open>{name}\<close> are found
  from left to right without overlap; \<open>scanned\<close> is the part of the text to the left of the current position.
\<close>

function replacePlaceholder :: "string \<Rightarrow> string \<Rightarrow> string \<Rightarrow> string \<Rightarrow> string" where
  "replacePlaceholder name replacement scanned s =
     (if s = [] then []
      else if prefix (placeholder name) s
        then getSubstitution (placeholder name) scanned (drop (length (placeholder name)) s)
               replacement
             @ replacePlaceholder name replacement (scanned @ placeholder name)
                 (drop (length (placeholder name)) s)
      else hd s # replacePlaceholder name replacement (scanned @ [hd s]) (tl s))"
  by pat_completeness auto
termination
  by (relation "measure (\<lambda>(name, replacement, scanned, s). length s)")
     (auto simp add: placeholder_def)

declare replacePlaceholder.simps [simp del]

definition replace_g :: "string \<Rightarrow> string \<Rightarrow> string \<Rightarrow> string" where
  "replace_g name replacement s = replacePlaceholder name replacement [] s"

definition replacePlaceholders :: "string \<Rightarrow> lead \<Rightarrow> string" where
  "replacePlaceholders text lead =
     replace_g ''jobTitle'' (or_empty (jobTitle lead))
       (replace_g ''company'' (or_empty (company lead))
         (replace_g ''fullName'' (fullName lead)
           (replace_g ''lastName'' (or_empty (lastName lead))
             (replace_g ''firstName'' (firstName lead) text))))"

text \<open>
  Templates as the specification reads them: literal text and placeholders \<open>{name}\<close>.
  A template is well formed when its literal pieces hold no opening brace and its
  placeholder names no brace at all. \<open>spec_render\<close> is the rendering the specification
  describes, with what the code does with an unknown placeholder: a known placeholder
  becomes the lead's value (nothing for an absent one), an unknown one stays as written.
  A lead value is clean when it holds neither an opening brace nor a dollar sign.
\<close>

datatype segment = Lit string | Ph string

fun segment_text :: "segment \<Rightarrow> string" where
  "segment_text (Lit s) = s"
| "segment_text (Ph n) = ''{'' @ n @ ''}''"

definition template_text :: "segment list \<Rightarrow> string" where
  "template_text segs = concat (map segment_text segs)"

fun wf_segment :: "segment \<Rightarrow> bool" where
  "wf_segment (Lit s) = (CHR ''{'' \<notin> set s)"
| "wf_segment (Ph n) = (CHR ''{'' \<notin> set n \<and> CHR ''}'' \<notin> set n)"

definition clean :: "string \<Rightarrow> bool" where
  "clean v = (CHR ''{'' \<notin> set v \<and> CHR ''$'' \<notin> set v)"

definition lead_values :: "lead \<Rightarrow> string list" where
  "lead_values lead =
     firstName lead
       # concat (map (\<lambda>v. case v of None \<Rightarrow> [] | Some s \<Rightarrow> [s])
                  [lastName lead, company lead, jobTitle lead])"

definition spec_value :: "lead \<Rightarrow> string \<Rightarrow> string" where
  "spec_value lead n =
     (if n = ''firstName'' then firstName lead
      else if n = ''lastName'' then (case lastName lead of None \<Rightarrow> [] | Some v \<Rightarrow> v)
      else if n = ''fullName'' then fullName lead
      else if n = ''company'' then (case company lead of None \<Rightarrow> [] | Some v \<Rightarrow> v)
      else if n = ''jobTitle'' then (case jobTitle lead of None \<Rightarrow> [] | Some v \<Rightarrow> v)
      else ''{'' @ n @ ''}'')"

fun spec_render :: "lead \<Rightarrow> segment \<Rightarrow> string" where
  "spec_render lead (Lit s) = s"
| "spec_render lead (Ph n) = spec_value lead n"

text \<open>One replacement seen on the segments: the named placeholder becomes literal text.\<close>

fun fill :: "string \<Rightarrow> string \<Rightarrow> segment \<Rightarrow> segment" where
  "fill name r (Lit s) = Lit s"
| "fill name r (Ph n) = (if n = name then Lit r else Ph n)"

text \<open>
  \<open>scheduleNextCall\<close> computes its dates on the runtime's local calendar: tomorrow at nine
  (\<open>setDate\<close>, \<open>setHours(9, 0, 0, 0)\<close>), or the current time with its hour field moved on
  by the retry delay (\<open>setHours(getHours() + retryDelayHours)\<close>). Both are taken from the
  runtime: \<open>nextDay9\<close> is the first date, \<open>hoursOn h\<close> the second for a delay of \<open>h\<close>
  hours. The save that follows is issued by the caller's model.
\<close>

definition scheduleNextCall :: "lead \<Rightarrow> nat \<Rightarrow> nat \<Rightarrow> (nat \<Rightarrow> nat) \<Rightarrow> lead" where
  "scheduleNextCall this retryDelayHours nextDay9 hoursOn =
     (if status this = ''callback'' then this\<lparr>nextCallDate := Some nextDay9\<rparr>
      else if status this = ''new'' \<or> status this = ''contacted''
        then this\<lparr>nextCallDate := Some (hoursOn retryDelayHours)\<rparr>
      else this)"

section \<open>Conversation state\<close>

record campaign =
  campaign_id :: string
  script_opening :: "string option"
  script_closing :: "string option"
  voice :: "string option"
  language :: "string option"

record call_context =
  callNumber :: int
  timeOfDay :: string

record conversation =
  callSid :: string
  leadId :: string
  campaignId :: string
  conv_lead :: lead
  conv_campaign :: campaign
  conversationHistory :: "turn list"
  currentStep :: string
  startTime :: nat
  callContext :: call_context

text \<open>The document handed to \<open>new Call(callData)\<close> in \<open>endConversation\<close>.\<close>

record call_doc =
  call_callSid :: string
  call_campaignId :: string
  call_leadId :: string
  call_phoneNumber :: string
  call_status :: string
  call_startedAt :: nat
  call_endedAt :: nat
  call_duration :: int
  call_conversation :: "turn list"
  call_sentiment :: js
  call_outcome :: string
  call_notes :: string

text \<open>
  The writes the service issues to its stores, in the order issued: \<open>call.save()\<close>,
  \<open>Call.findOneAndUpdate\<close> with upsert (call SID, transcript, status), \<open>lead.save()\<close> and
  \<open>campaign.updateStats()\<close>.
\<close>

datatype store_write =
    CallSaved call_doc
  | CallUpserted string "turn list" string
  | LeadSaved lead
  | CampaignStatsUpdated string

text \<open>
  The service holds \<open>activeConversations\<close>, a Map from call SID to a conversation object.
  Objects are shared by reference (a handler keeps using the object it looked up, whatever
  happens to the Map meanwhile), so the Map holds addresses and \<open>heap\<close> holds the objects;
  addresses from \<open>next_ref\<close> on are unused.
\<close>

record state =
  activeConversations :: "string \<Rightarrow> nat option"
  heap :: "nat \<Rightarrow> conversation"
  next_ref :: nat
  writes :: "store_write list"

text \<open>
  The TwiML documents, by what they make the telephony provider do: \<open>Hangup message\<close> says
  the message and hangs up; \<open>Gather message voice language sid noInput\<close> says the message
  while listening for speech, posts the result to the gather webhook of call \<open>sid\<close>, and
  says \<open>noInput\<close>, when there is one, if nothing was heard.
\<close>

datatype twiml =
    Hangup string
  | Gather string string string string "string option"

text \<open>
  What the collaborators (clock, response generator, sentiment and extraction calls,
  summary, stores) answer during one operation. The generator, sentiment, extraction and
  summary calls catch their own failures and always answer; a store write may fail, and
  each save of the lead has its own answer: \<open>score_save_ok\<close> for the save at the end of
  \<open>updateScore\<close>, \<open>schedule_save_ok\<close> for the one at the end of \<open>scheduleNextCall\<close>,
  \<open>lead_save_ok\<close> for the final \<open>lead.save()\<close>.
\<close>

record env =
  time_customer :: nat
  time_agent :: nat
  aiResponse :: string
  state_save_ok :: bool
  endTime :: nat
  sentiment_result :: js
  extracted_result :: js
  summary_result :: string
  new_call_id :: string
  call_save_ok :: bool
  time_lead :: nat
  next_day_9am :: nat
  hours_on :: "nat \<Rightarrow> nat"
  score_save_ok :: bool
  schedule_save_ok :: bool
  lead_save_ok :: bool
  stats_ok :: bool

record call_summary =
  sum_callId :: string
  sum_outcome :: string
  sum_duration :: int
  sum_sentiment :: js
  sum_extractedInfo :: js

definition getTimeOfDay :: "nat \<Rightarrow> string" where
  "getTimeOfDay hour =
     (if hour < 12 then ''morning'' else if hour < 17 then ''afternoon'' else ''evening'')"

text \<open>\<open>v || d\<close> for an optional string setting: absent and empty both give the default.\<close>

definition or_default :: "string option \<Rightarrow> string \<Rightarrow> string" where
  "or_default v d = (case v of None \<Rightarrow> d | Some s \<Rightarrow> if s = [] then d else s)"

section \<open>Conversation service\<close>

text \<open>
  \<open>initializeConversation\<close> builds a fresh context object and stores it in the Map under
  the call SID; it returns the object (here: its address). \<open>now\<close> and \<open>hour\<close> are the
  clock readings of \<open>new Date()\<close> and \<open>getHours()\<close>.
\<close>

definition initializeConversation ::
  "state \<Rightarrow> string \<Rightarrow> lead \<Rightarrow> campaign \<Rightarrow> nat \<Rightarrow> nat \<Rightarrow> nat \<times> state" where
  "initializeConversation st sid lead campaign now hour =
     (let conversationContext =
            \<lparr>callSid = sid, leadId = lead_id lead, campaignId = campaign_id campaign,
             conv_lead = lead, conv_campaign = campaign, conversationHistory = [],
             currentStep = ''opening'', startTime = now,
             callContext = \<lparr>callNumber = totalCalls lead + 1, timeOfDay = getTimeOfDay hour\<rparr>\<rparr>;
          r = next_ref st
      in (r, st\<lparr>activeConversations := (activeConversations st)(sid \<mapsto> r),
                 heap := (heap st)(r := conversationContext),
                 next_ref := Suc r\<rparr>))"

definition getConversation :: "state \<Rightarrow> string \<Rightarrow> conversation option" where
  "getConversation st sid = map_option (heap st) (activeConversations st sid)"

definition push_turn :: "conversation \<Rightarrow> string \<Rightarrow> string \<Rightarrow> nat \<Rightarrow> conversation" where
  "push_turn c who msg now =
     c\<lparr>conversationHistory :=
         conversationHistory c @ [\<lparr>speaker = who, message = msg, timestamp = now\<rparr>]\<rparr>"

definition generateOpeningMessage :: "state \<Rightarrow> nat \<Rightarrow> nat \<Rightarrow> twiml \<times> state" where
  "generateOpeningMessage st r now =
     (let conversation = heap st r;
          lead = conv_lead conversation;
          campaign = conv_campaign conversation;
          openingMessage =
            replacePlaceholders
              (or_default (script_opening campaign)
                 (''Hello, this is an automated sales call. Am I speaking with ''
                    @ firstName lead @ ''?''))
              lead
      in (Gather openingMessage (or_default (voice campaign) ''alice'')
            (or_default (language campaign) ''en-US'') (callSid conversation)
            (Some ''Hello? Are you there?''),
          st\<lparr>heap := (heap st)(r := push_turn conversation ''agent'' openingMessage now)\<rparr>))"

definition stepKeywords :: "(string \<times> string list) list" where
  "stepKeywords =
     [(''qualification'', [''qualify'', ''budget'', ''timeline'', ''decision'']),
      (''presentation'', [''solution'', ''product'', ''service'', ''benefit'']),
      (''objection'', [''concern'', ''but'', ''however'', ''objection'']),
      (''closing'', [''next step'', ''schedule'', ''sign up'', ''purchase''])]"

definition updateConversationStep :: "conversation \<Rightarrow> string \<Rightarrow> conversation" where
  "updateConversationStep conversation response =
     (let lowerResponse = toLowerCase response
      in case find (\<lambda>(step, keywords).
                      list_ex (\<lambda>keyword. str_includes lowerResponse keyword) keywords)
                stepKeywords of
           None \<Rightarrow> conversation
         | Some (step, keywords) \<Rightarrow> conversation\<lparr>currentStep := step\<rparr>)"

text \<open>\<open>saveConversationState\<close> catches a failed write and goes on.\<close>

definition saveConversationState :: "state \<Rightarrow> conversation \<Rightarrow> bool \<Rightarrow> state" where
  "saveConversationState st conversation ok =
     (if ok
      then st\<lparr>writes := writes st
                 @ [CallUpserted (callSid conversation) (conversationHistory conversation)
                      ''in-progress'']\<rparr>
      else st)"

text \<open>\<open>interests.split(',')\<close> on a string.\<close>

fun split_comma :: "string \<Rightarrow> string list" where
  "split_comma [] = [[]]"
| "split_comma (c # cs) =
     (if c = CHR '','' then [] # split_comma cs
      else case split_comma cs of [] \<Rightarrow> [[c]] | x # xs \<Rightarrow> (c # x) # xs)"

text \<open>
  \<open>updateLeadFromConversation\<close> runs inside one try/catch that logs and swallows every
  error. The steps run on the in-memory lead and the writes issued so far, with a flag
  that is cleared where an error stops the sequence.
\<close>

type_synonym lead_progress = "bool \<times> lead \<times> store_write list"

definition and_then :: "lead_progress \<Rightarrow> (lead \<Rightarrow> store_write list \<Rightarrow> lead_progress) \<Rightarrow> lead_progress" where
  "and_then p f = (case p of (ok, l, ws) \<Rightarrow> if ok then f l ws else (False, l, ws))"

definition save_lead :: "bool \<Rightarrow> lead \<Rightarrow> store_write list \<Rightarrow> lead_progress" where
  "save_lead ok l ws = (if ok then (True, l, ws @ [LeadSaved l]) else (False, l, ws))"

definition push_split :: "js \<Rightarrow> string list \<Rightarrow> error + string list" where
  "push_split v existing =
     (if truthy v
      then (case v of JStr s \<Rightarrow> Inr (existing @ map trim (split_comma s)) | _ \<Rightarrow> Inl TypeError)
      else Inr existing)"

definition updateLeadFromConversation ::
  "lead \<Rightarrow> js \<Rightarrow> string \<Rightarrow> js \<Rightarrow> env \<Rightarrow> lead \<times> store_write list" where
  "updateLeadFromConversation lead extractedInfo outcome sentiment e =
     (let p1 = (case updateScore lead outcome sentiment (time_lead e) of
                  Inl err \<Rightarrow> (False, lead, [])
                | Inr l \<Rightarrow> save_lead (score_save_ok e) l []);
          p2 = and_then p1 (\<lambda>l ws.
                 case js_get extractedInfo ''budget'' of
                   Inl err \<Rightarrow> (False, l, ws)
                 | Inr b \<Rightarrow> (True, if truthy b then l\<lparr>budget := JObj [(''min'', b)]\<rparr> else l, ws));
          p3 = and_then p2 (\<lambda>l ws.
                 case js_get extractedInfo ''timeline'' of
                   Inl err \<Rightarrow> (False, l, ws)
                 | Inr t \<Rightarrow> (True, if truthy t then l\<lparr>timeframe := t\<rparr> else l, ws));
          p4 = and_then p3 (\<lambda>l ws.
                 case js_get extractedInfo ''decisionMaker'' of
                   Inl err \<Rightarrow> (False, l, ws)
                 | Inr d \<Rightarrow> (True, if d \<noteq> JNull then l\<lparr>decisionMaker := d\<rparr> else l, ws));
          p5 = and_then p4 (\<lambda>l ws.
                 case js_get extractedInfo ''interests'' of
                   Inl err \<Rightarrow> (False, l, ws)
                 | Inr i \<Rightarrow>
                    (case push_split i (topics l) of
                       Inl err \<Rightarrow> (False, l, ws)
                     | Inr ts \<Rightarrow> (True, l\<lparr>topics := ts\<rparr>, ws)));
          p6 = and_then p5 (\<lambda>l ws.
                 case js_get extractedInfo ''objections'' of
                   Inl err \<Rightarrow> (False, l, ws)
                 | Inr ob \<Rightarrow>
                    (case push_split ob (objections l) of
                       Inl err \<Rightarrow> (False, l, ws)
                     | Inr os \<Rightarrow> (True, l\<lparr>objections := os\<rparr>, ws)));
          p7 = and_then p6 (\<lambda>l ws.
                 if outcome = ''callback''
                   then save_lead (schedule_save_ok e)
                          (scheduleNextCall l 24 (next_day_9am e) (hours_on e)) ws
                 else if outcome = ''interested''
                   then save_lead (schedule_save_ok e)
                          (scheduleNextCall l 72 (next_day_9am e) (hours_on e)) ws
                 else (True, l, ws));
          p8 = and_then p7 (\<lambda>l ws. save_lead (lead_save_ok e) l ws)
      in (fst (snd p8), snd (snd p8)))"

text \<open>
  \<open>endConversation\<close> is an async function: it is suspended at each of its awaits, and
  other operations of the service can run before it is resumed. Where a resumption only
  starts the next awaited call, two awaits make one suspension. The segments in between are:
  \<^item> \<open>endConversation_lookup\<close>, from the entry to the wait for the sentiment and the
    extraction: the Map lookup (\<open>None\<close> is the early \<open>return null\<close>), the clock reading
    and the duration, \<open>Math.round\<close> of the elapsed milliseconds over 1000 (halves go up);
  \<^item> \<open>endConversation_resolve\<close>, up to the wait for the summary: the outcome, and the call
    data evaluated so far (its transcript is a reference to the live array, its notes are
    not there yet);
  \<^item> \<open>endConversation_document\<close>, up to the wait for the save: \<open>new Call(callData)\<close> takes
    the summary and copies the transcript as it is then;
  \<^item> \<open>endConversation_saved\<close>, up to the wait for the campaign statistics: a rejected save
    is thrown, an accepted one is in the store, and the lead is updated
    (\<open>updateLeadFromConversation\<close> is run as a whole here: between its own awaits, the
    saves of the lead, it touches only the lead object and the lead store);
  \<^item> \<open>endConversation_finish\<close>, to the return: a failed statistics update is thrown;
    otherwise the Map entry is deleted, the log line reads \<open>sentiment.score\<close>, and the
    summary is returned.
  \<open>endConversation_continue\<close> runs the segments after the lookup with nothing in between,
  and \<open>endConversation\<close> is the whole call run that way; \<open>Inl\<close> is an error thrown to the
  caller (the catch block logs and rethrows).
\<close>

record found =
  fd_ref :: nat
  fd_endTime :: nat
  fd_duration :: int

definition endConversation_lookup :: "state \<Rightarrow> string \<Rightarrow> nat \<Rightarrow> found option" where
  "endConversation_lookup st sid now =
     (case activeConversations st sid of
        None \<Rightarrow> None
      | Some r \<Rightarrow>
          Some \<lparr>fd_ref = r, fd_endTime = now,
                fd_duration = (int now - int (startTime (heap st r)) + 500) div 1000\<rparr>)"

record resolved =
  rs_found :: found
  rs_sentiment :: js
  rs_extractedInfo :: js
  rs_outcome :: string
  rs_callData :: call_doc

definition endConversation_resolve ::
  "state \<Rightarrow> string \<Rightarrow> string \<Rightarrow> found \<Rightarrow> env \<Rightarrow> error + resolved" where
  "endConversation_resolve st sid reason f e =
     (let conversation = heap st (fd_ref f);
          sentiment = sentiment_result e;
          extractedInfo = extracted_result e
      in case determineCallOutcome (conversationHistory conversation) extractedInfo reason of
           Inl err \<Rightarrow> Inl err
         | Inr outcome \<Rightarrow>
             Inr \<lparr>rs_found = f, rs_sentiment = sentiment, rs_extractedInfo = extractedInfo,
                  rs_outcome = outcome,
                  rs_callData =
                    \<lparr>call_callSid = sid, call_campaignId = campaignId conversation,
                     call_leadId = leadId conversation,
                     call_phoneNumber = phoneNumber (conv_lead conversation),
                     call_status = ''completed'', call_startedAt = startTime conversation,
                     call_endedAt = fd_endTime f, call_duration = fd_duration f,
                     call_conversation = [], call_sentiment = sentiment,
                     call_outcome = outcome, call_notes = []\<rparr>\<rparr>)"

definition endConversation_document :: "state \<Rightarrow> resolved \<Rightarrow> env \<Rightarrow> resolved" where
  "endConversation_document st rs e =
     rs\<lparr>rs_callData :=
          (rs_callData rs)
            \<lparr>call_conversation := conversationHistory (heap st (fd_ref (rs_found rs))),
             call_notes := summary_result e\<rparr>\<rparr>"

definition endConversation_saved ::
  "state \<Rightarrow> resolved \<Rightarrow> env \<Rightarrow> (error + unit) \<times> state" where
  "endConversation_saved st rs e =
     (if \<not> call_save_ok e then (Inl SaveFailed, st)
      else
        let r = fd_ref (rs_found rs);
            st1 = st\<lparr>writes := writes st @ [CallSaved (rs_callData rs)]\<rparr>;
            updated = updateLeadFromConversation (conv_lead (heap st1 r))
                        (rs_extractedInfo rs) (rs_outcome rs) (rs_sentiment rs) e
        in (Inr (),
            st1\<lparr>heap := (heap st1)(r := (heap st1 r)\<lparr>conv_lead := fst updated\<rparr>),
                writes := writes st1 @ snd updated\<rparr>))"

definition endConversation_finish ::
  "state \<Rightarrow> string \<Rightarrow> resolved \<Rightarrow> env \<Rightarrow> (error + call_summary) \<times> state" where
  "endConversation_finish st sid rs e =
     (if \<not> stats_ok e then (Inl StatsFailed, st)
      else
        let st3 = st\<lparr>writes := writes st
                           @ [CampaignStatsUpdated
                                (campaign_id (conv_campaign (heap st (fd_ref (rs_found rs)))))],
                       activeConversations := (activeConversations st)(sid := None)\<rparr>
        in case js_get (rs_sentiment rs) ''score'' of
             Inl err \<Rightarrow> (Inl err, st3)
           | Inr sc \<Rightarrow>
              (Inr \<lparr>sum_callId = new_call_id e, sum_outcome = rs_outcome rs,
                    sum_duration = fd_duration (rs_found rs), sum_sentiment = rs_sentiment rs,
                    sum_extractedInfo = rs_extractedInfo rs\<rparr>,
               st3))"

definition endConversation_continue ::
  "state \<Rightarrow> string \<Rightarrow> string \<Rightarrow> found \<Rightarrow> env \<Rightarrow> (error + call_summary option) \<times> state" where
  "endConversation_continue st sid reason f e =
     (case endConversation_resolve st sid reason f e of
        Inl err \<Rightarrow> (Inl err, st)
      | Inr rs \<Rightarrow>
         (case endConversation_saved st (endConversation_document st rs e) e of
            (Inl err, st1) \<Rightarrow> (Inl err, st1)
          | (Inr u, st1) \<Rightarrow>
             (case endConversation_finish st1 sid (endConversation_document st rs e) e of
                (Inl err, st2) \<Rightarrow> (Inl err, st2)
              | (Inr summary, st2) \<Rightarrow> (Inr (Some summary), st2))))"

definition endConversation ::
  "state \<Rightarrow> string \<Rightarrow> string \<Rightarrow> env \<Rightarrow> (error + call_summary option) \<times> state" where
  "endConversation st sid reason e =
     (case endConversation_lookup st sid (endTime e) of
        None \<Rightarrow> (Inr None, st)
      | Some f \<Rightarrow> endConversation_continue st sid reason f e)"

text \<open>
  \<open>handleCustomerSpeech\<close> is an async function. It runs to its first suspension, the wait
  for the response generator, holding the conversation object it looked up; it is resumed
  with the generator's answer. \<open>handleCustomerSpeech_begin\<close> is the part before that
  wait (the termination path, which awaits \<open>endConversation\<close>, completes in it),
  \<open>handleCustomerSpeech_resume\<close> the part after it, and \<open>handleCustomerSpeech\<close> the
  whole call when nothing else runs in between.
\<close>

datatype pending = Replied twiml | AwaitingResponse nat

definition handleCustomerSpeech_begin ::
  "state \<Rightarrow> string \<Rightarrow> string \<Rightarrow> env \<Rightarrow> pending \<times> state" where
  "handleCustomerSpeech_begin st sid customerSpeech e =
     (case activeConversations st sid of
        None \<Rightarrow> (Replied (Hangup ''Thank you for calling. Goodbye!''), st)
      | Some r \<Rightarrow>
         let st1 = st\<lparr>heap := (heap st)
                      (r := push_turn (heap st r) ''customer'' customerSpeech (time_customer e))\<rparr>
         in if shouldEndCall customerSpeech
            then (case endConversation st1 sid ''customer-requested'' e of
                    (Inl err, st2) \<Rightarrow>
                      (Replied (Gather
                         ''I apologize, I didn't quite catch that. Could you please repeat?''
                         ''alice'' ''en-US'' sid None), st2)
                  | (Inr summary, st2) \<Rightarrow>
                      (Replied (Hangup (or_default (script_closing (conv_campaign (heap st2 r)))
                                          ''Thank you for your time. Goodbye!'')), st2))
            else (AwaitingResponse r, st1))"

definition handleCustomerSpeech_resume ::
  "state \<Rightarrow> string \<Rightarrow> nat \<Rightarrow> env \<Rightarrow> twiml \<times> state" where
  "handleCustomerSpeech_resume st sid r e =
     (let conversation =
            updateConversationStep
              (push_turn (heap st r) ''agent'' (aiResponse e) (time_agent e)) (aiResponse e);
          st1 = st\<lparr>heap := (heap st)(r := conversation)\<rparr>
      in (Gather (aiResponse e)
            (or_default (voice (conv_campaign conversation)) ''alice'')
            (or_default (language (conv_campaign conversation)) ''en-US'') sid
            (Some ''I didn't hear anything. Are you still there?''),
          saveConversationState st1 conversation (state_save_ok e)))"

definition handleCustomerSpeech ::
  "state \<Rightarrow> string \<Rightarrow> string \<Rightarrow> env \<Rightarrow> twiml \<times> state" where
  "handleCustomerSpeech st sid customerSpeech e =
     (case handleCustomerSpeech_begin st sid customerSpeech e of
        (Replied t, st1) \<Rightarrow> (t, st1)
      | (AwaitingResponse r, st1) \<Rightarrow> handleCustomerSpeech_resume st1 sid r e)"



section \<open>Sample data\<close>

definition customer :: "string \<Rightarrow> turn" where
  "customer m = \<lparr>speaker = ''customer'', message = m, timestamp = 0\<rparr>"

definition agent :: "string \<Rightarrow> turn" where
  "agent m = \<lparr>speaker = ''agent'', message = m, timestamp = 0\<rparr>"

text \<open>A transcript of \<open>n\<close> exchanges: the agent asks, the customer answers.\<close>

definition talk :: "nat \<Rightarrow> turn list" where
  "talk n = concat (replicate n [agent ''and?'', customer ''yes''])"

definition ana :: lead where
  "ana = \<lparr>lead_id = ''L1'', firstName = ''Ana'', lastName = Some ''Lee'',
          phoneNumber = ''+15550100'', company = None, jobTitle = None, status = ''new'',
          score = 50, totalCalls = 0, lastCallDate = None, nextCallDate = None,
          doNotCall = False, doNotCallReason = None, budget = JUndefined,
          timeframe = JStr ''no-timeline'', decisionMaker = JBool False, topics = [],
          objections = []\<rparr>"

definition bea :: lead where
  "bea = ana\<lparr>firstName := ''Bea'', lastName := Some ''Roy'', company := Some ''Acme'',
             jobTitle := Some ''CTO''\<rparr>"

definition letter :: "segment list" where
  "letter =
     [Lit ''Dear '', Ph ''title'', Lit '' '', Ph ''firstName'', Lit '' '', Ph ''lastName'',
      Lit '' ('', Ph ''jobTitle'', Lit '' at '', Ph ''company'', Lit ''), are you '',
      Ph ''fullName'', Lit ''?'']"

definition demo :: campaign where
  "demo = \<lparr>campaign_id = ''K1'',
           script_opening = Some ''Hi {firstName}, is this {fullName}?'',
           script_closing = None, voice = None, language = None\<rparr>"

definition blank :: conversation where
  "blank = \<lparr>callSid = [], leadId = [], campaignId = [], conv_lead = ana, conv_campaign = demo,
            conversationHistory = [], currentStep = [], startTime = 0,
            callContext = \<lparr>callNumber = 0, timeOfDay = []\<rparr>\<rparr>"

definition idle :: state where
  "idle = \<lparr>activeConversations = Map.empty, heap = (\<lambda>r. blank), next_ref = 0, writes = []\<rparr>"

definition answers :: env where
  "answers = \<lparr>time_customer = 2000, time_agent = 3000, aiResponse = ''What is your budget?'',
              state_save_ok = True, endTime = 5000,
              sentiment_result = JObj [(''overall'', JStr ''neutral''), (''score'', JNum 0)],
              extracted_result = JObj [], summary_result = ''Short call.'',
              new_call_id = ''C1'', call_save_ok = True, time_lead = 5001,
              next_day_9am = 90000000, hours_on = (\<lambda>h. 5001 + h * 3600000),
              score_save_ok = True, schedule_save_ok = True, lead_save_ok = True,
              stats_ok = True\<rparr>"

text \<open>
  A call CA1 to Ana: the conversation is initialized and the opening message generated;
  then either the conversation is initialized a second time, or the customer speaks.
\<close>

definition first_init :: "nat \<times> state" where
  "first_init = initializeConversation idle ''CA1'' ana demo 1000 9"

definition opened :: state where
  "opened = snd (generateOpeningMessage (snd first_init) (fst first_init) 1001)"

definition second_init :: "nat \<times> state" where
  "second_init = initializeConversation opened ''CA1'' ana demo 2000 9"

text \<open>
  The customer's turn is taken in and the handler waits for the response generator; the
  status webhook ends the conversation meanwhile; then the generator answers and the
  handler is resumed.
\<close>

definition speaking :: "pending \<times> state" where
  "speaking = handleCustomerSpeech_begin opened ''CA1'' ''tell me more'' answers"

definition ended :: "(error + call_summary option) \<times> state" where
  "ended = endConversation (snd speaking) ''CA1'' ''completed'' answers"

definition late :: "twiml \<times> state" where
  "late = handleCustomerSpeech_resume (snd ended) ''CA1'' 0 answers"






section \<open>Termination detector\<close>

lemma toLowerCase_unit_idem: "toLowerCase_unit (toLowerCase_unit c) = toLowerCase_unit c"
proof -
  let ?n = "of_char c :: nat"
  show ?thesis
  proof (cases "(65 \<le> ?n \<and> ?n \<le> 90) \<or> (192 \<le> ?n \<and> ?n \<le> 222 \<and> ?n \<noteq> 215)")
    case True
    then have lt: "?n + 32 < 256" by auto
    have "(of_char (char_of (?n + 32)) :: nat) = ?n + 32"
      using lt by simp
    with True show ?thesis
      by (auto simp add: toLowerCase_unit_def Let_def)
  next
    case False
    then show ?thesis by (auto simp add: toLowerCase_unit_def Let_def)
  qed
qed

lemma toLowerCase_idem: "toLowerCase (toLowerCase s) = toLowerCase s"
  by (simp add: toLowerCase_def toLowerCase_unit_idem)

lemma str_includes_sublist: "str_includes s p = sublist p s"
  by (induction s) (auto simp add: sublist_Cons_right)

lemma letter_pairs:
  "list_all (\<lambda>(u, l). toLowerCase_unit u = l \<and> toLowerCase_unit l = l) (zip capitals smalls)"
  by code_simp

lemma letter_pair:
  assumes "(u, l) \<in> set (zip capitals smalls)"
  shows "toLowerCase_unit u = l" and "toLowerCase_unit l = l"
  using assms letter_pairs by (auto simp add: list_all_iff)

lemma lower_after_spec_lower:
  "toLowerCase_unit (spec_swap capitals smalls c) = toLowerCase_unit c"
proof (cases "map_of (zip capitals smalls) c")
  case None
  then show ?thesis by (simp add: spec_swap_def)
next
  case (Some d)
  then have "(c, d) \<in> set (zip capitals smalls)" by (rule map_of_SomeD)
  then have "toLowerCase_unit c = d" "toLowerCase_unit d = d" by (rule letter_pair)+
  with Some show ?thesis by (simp add: spec_swap_def)
qed

lemma lower_after_spec_upper:
  "toLowerCase_unit (spec_swap smalls capitals c) = toLowerCase_unit c"
proof (cases "map_of (zip smalls capitals) c")
  case None
  then show ?thesis by (simp add: spec_swap_def)
next
  case (Some d)
  then have "(c, d) \<in> set (zip smalls capitals)" by (rule map_of_SomeD)
  then have "(d, c) \<in> set (zip capitals smalls)" by (simp add: set_zip) blast
  then have "toLowerCase_unit d = c" "toLowerCase_unit c = c" by (rule letter_pair)+
  with Some show ?thesis by (simp add: spec_swap_def)
qed

lemma toLowerCase_spec:
  "toLowerCase (spec_lowercase s) = toLowerCase s"
  "toLowerCase (spec_uppercase s) = toLowerCase s"
  by (simp_all add: toLowerCase_def spec_lowercase_def spec_uppercase_def
      lower_after_spec_lower lower_after_spec_upper)

text \<open>
  C5. \<open>shouldEndCall\<close> is a substring match of the lowercased utterance against the ten
  fixed phrases, and it does not depend on letter case: an utterance, its lowercased form
  (by the runtime's \<open>toLowerCase\<close> and by the alphabet) and its form in capital letters
  all get the same answer. "please remove me from your list" ends the call, in small
  letters and in capitals; "I'm interested, tell me more" does not, in either.
\<close>

theorem shouldEndCall_case_insensitive:
  "shouldEndCall s =
     list_ex (\<lambda>phrase. sublist phrase (toLowerCase s))
       [''remove me'', ''take me off'', ''do not call'', ''not interested'', ''stop calling'',
        ''unsubscribe'', ''wrong number'', ''goodbye'', ''hang up'', ''end call'']
   \<and> shouldEndCall (toLowerCase s) = shouldEndCall s
   \<and> shouldEndCall (spec_lowercase s) = shouldEndCall s
   \<and> shouldEndCall (spec_uppercase s) = shouldEndCall s
   \<and> shouldEndCall ''please remove me from your list''
   \<and> shouldEndCall ''Please REMOVE ME from your list''
   \<and> \<not> shouldEndCall ''I'm interested, tell me more''
   \<and> \<not> shouldEndCall ''I'M INTERESTED, TELL ME MORE''"
proof -
  have a: "shouldEndCall s =
     list_ex (\<lambda>phrase. sublist phrase (toLowerCase s))
       [''remove me'', ''take me off'', ''do not call'', ''not interested'', ''stop calling'',
        ''unsubscribe'', ''wrong number'', ''goodbye'', ''hang up'', ''end call'']"
    by (simp only: shouldEndCall_def terminationPhrases_def Let_def str_includes_sublist)
  have b: "shouldEndCall (toLowerCase s) = shouldEndCall s"
    by (simp add: shouldEndCall_def toLowerCase_idem)
  have c: "shouldEndCall (spec_lowercase s) = shouldEndCall s"
    "shouldEndCall (spec_uppercase s) = shouldEndCall s"
    by (simp_all add: shouldEndCall_def toLowerCase_spec)
  have d: "shouldEndCall ''please remove me from your list''"
    by code_simp
  have e: "shouldEndCall ''Please REMOVE ME from your list''"
    by code_simp
  have f: "\<not> shouldEndCall ''I'm interested, tell me more''"
    by code_simp
  have g: "\<not> shouldEndCall ''I'M INTERESTED, TELL ME MORE''"
    by code_simp
  from a b c d e f g show ?thesis by simp
qed

section \<open>Outcome resolver\<close>

lemma customerMessages_count: "length (customerMessages h) = spec_customer_turns h"
  by (induction h) (simp_all add: customerMessages_def)

text \<open>
  C1. With end reason customer-requested the resolver answers not-interested, whatever the
  transcript and the signals. With an empty signals record and any other end reason the
  answer follows the number of customer turns in the transcript, agent turns not counted:
  fewer than 2 gives no-answer, more than 5 gives interested, anything else not-interested.
\<close>

theorem determineCallOutcome_priority:
  "determineCallOutcome history info ''customer-requested'' = Inr ''not-interested''
   \<and> (reason \<noteq> ''customer-requested'' \<longrightarrow>
        determineCallOutcome history (JObj []) reason =
          Inr (if spec_customer_turns history < 2 then ''no-answer''
               else if spec_customer_turns history > 5 then ''interested''
               else ''not-interested''))"
  by (simp add: determineCallOutcome_def customerMessages_count)

theorem determineCallOutcome_priority_witness:
  "determineCallOutcome [] (JObj []) ''customer-requested'' = Inr ''not-interested''
   \<and> ''provider-signaled-completion'' \<noteq> ''customer-requested''
   \<and> determineCallOutcome (talk 6) (JObj []) ''provider-signaled-completion''
        = Inr ''interested''
   \<and> determineCallOutcome (talk 1 @ replicate 5 (agent ''hello?'')) (JObj [])
        ''provider-signaled-completion'' = Inr ''no-answer''
   \<and> determineCallOutcome (talk 2) (JObj []) ''provider-signaled-completion''
        = Inr ''not-interested''
   \<and> determineCallOutcome (talk 3) (JObj []) ''provider-signaled-completion''
        = Inr ''not-interested''
   \<and> determineCallOutcome (talk 5) (JObj []) ''provider-signaled-completion''
        = Inr ''not-interested''"
  using determineCallOutcome_priority [of "[]" "JObj []" "''provider-signaled-completion''"]
        determineCallOutcome_priority [of "talk 6" "JObj []" "''provider-signaled-completion''"]
        determineCallOutcome_priority
          [of "talk 1 @ replicate 5 (agent ''hello?'')" "JObj []"
              "''provider-signaled-completion''"]
        determineCallOutcome_priority [of "talk 2" "JObj []" "''provider-signaled-completion''"]
        determineCallOutcome_priority [of "talk 3" "JObj []" "''provider-signaled-completion''"]
        determineCallOutcome_priority [of "talk 5" "JObj []" "''provider-signaled-completion''"]
  by (simp add: talk_def customer_def agent_def numeral_eq_Suc)

text \<open>
  C2. The interested rule comes before the callback rule: when the signals hold a truthy
  \<open>nextSteps\<close> and the end reason is not customer-requested, the resolver answers
  interested, also when \<open>nextSteps\<close> mentions a callback.
\<close>

theorem interested_before_callback:
  assumes "js_get info ''nextSteps'' = Inr nextSteps"
    and "truthy nextSteps"
    and "reason \<noteq> ''customer-requested''"
  shows "determineCallOutcome history info reason = Inr ''interested''"
  using assms by (simp add: determineCallOutcome_def)

theorem interested_before_callback_witness:
  "js_get (JObj [(''nextSteps'', JStr ''please callback tomorrow'')]) ''nextSteps''
     = Inr (JStr ''please callback tomorrow'')
   \<and> truthy (JStr ''please callback tomorrow'')
   \<and> ''completed'' \<noteq> ''customer-requested''
   \<and> js_includes (JStr ''please callback tomorrow'') ''callback'' = Inr True
   \<and> determineCallOutcome [] (JObj [(''nextSteps'', JStr ''please callback tomorrow'')])
        ''completed'' = Inr ''interested''"
  using interested_before_callback
    [of "JObj [(''nextSteps'', JStr ''please callback tomorrow'')]"
        "JStr ''please callback tomorrow''" "''completed''" "[]"]
  by simp

text \<open>
  C10. For every transcript, signals record and end reason the resolver returns, and its
  answer is one of not-interested, interested, callback and no-answer: a label of the
  Call schema's enumeration, and never sale, voicemail or wrong-number.
\<close>

theorem determineCallOutcome_range:
  "\<exists>outcome. determineCallOutcome history (JObj info) reason = Inr outcome
      \<and> outcome \<in> {''not-interested'', ''interested'', ''callback'', ''no-answer''}
      \<and> outcome \<in> set outcome_enum
      \<and> outcome \<notin> {''sale'', ''voicemail'', ''wrong-number''}"
  by (simp add: determineCallOutcome_def outcome_enum_def)

section \<open>Placeholder substitution\<close>

lemma replacePlaceholder_absent:
  "\<not> str_includes s (placeholder name) \<Longrightarrow> replacePlaceholder name replacement scanned s = s"
proof (induction name replacement scanned s rule: replacePlaceholder.induct)
  case (1 name replacement scanned s)
  show ?case
  proof (cases s)
    case Nil
    then show ?thesis by (simp add: replacePlaceholder.simps)
  next
    case (Cons c cs)
    with "1.prems" have np: "\<not> prefix (placeholder name) s"
      and nt: "\<not> str_includes cs (placeholder name)"
      by auto
    from Cons np nt "1.IH"(2)
    have "replacePlaceholder name replacement (scanned @ [hd s]) (tl s) = tl s"
      by simp
    with Cons np show ?thesis
      by (subst replacePlaceholder.simps) simp
  qed
qed

lemma replace_g_absent:
  "\<not> str_includes s (placeholder name) \<Longrightarrow> replace_g name replacement s = s"
  by (simp add: replace_g_def replacePlaceholder_absent)

text \<open>
  C6, as claimed, fails: a placeholder that is not one of the five known ones stays in
  the rendered output. The template "Hi {nickname}!" renders with \<open>{nickname}\<close> still in it.
\<close>

theorem replacePlaceholders_unknown_counterexample:
  "str_includes (replacePlaceholders ''Hi {nickname}!'' ana) ''{nickname}''"
  by (simp add: replacePlaceholders_def replace_g_def replacePlaceholder.simps placeholder_def
      ana_def fullName_def trim_def is_space_def or_empty_def)

lemma template_text_simps:
  "template_text [] = []"
  "template_text (Lit s # segs) = s @ template_text segs"
  "template_text (Ph n # segs) = placeholder n @ template_text segs"
  by (simp_all add: template_text_def placeholder_def)

lemma getSubstitution_plain:
  "CHR ''$'' \<notin> set r \<Longrightarrow> getSubstitution m b a r = r"
  by (induction m b a r rule: getSubstitution.induct) auto

lemma replacePlaceholder_literal:
  "CHR ''{'' \<notin> set s \<Longrightarrow>
   replacePlaceholder name r scanned (s @ t) = s @ replacePlaceholder name r (scanned @ s) t"
proof (induction s arbitrary: scanned)
  case Nil
  then show ?case by simp
next
  case (Cons c s)
  then have "\<not> prefix (placeholder name) ((c # s) @ t)"
    by (auto simp add: placeholder_def)
  with Cons show ?case
    by (subst replacePlaceholder.simps) simp
qed

lemma same_name:
  "CHR ''}'' \<notin> set name \<Longrightarrow> CHR ''}'' \<notin> set n \<Longrightarrow>
   prefix (name @ ''}'') (n @ ''}'' @ t) \<Longrightarrow> name = n"
proof (induction name arbitrary: n)
  case Nil
  then show ?case by (cases n) auto
next
  case (Cons a name)
  then show ?case by (cases n) auto
qed

lemma replacePlaceholder_segments:
  assumes "list_all wf_segment segs"
    and "CHR ''}'' \<notin> set name" and "clean r"
  shows "replacePlaceholder name r scanned (template_text segs)
           = template_text (map (fill name r) segs)"
  using assms(1)
proof (induction segs arbitrary: scanned)
  case Nil
  then show ?case by (simp add: template_text_simps replacePlaceholder.simps)
next
  case (Cons seg segs)
  then have wf: "wf_segment seg" and ih:
    "\<And>scanned. replacePlaceholder name r scanned (template_text segs)
                 = template_text (map (fill name r) segs)"
    by simp_all
  show ?case
  proof (cases seg)
    case (Lit s)
    with wf ih show ?thesis
      by (simp add: template_text_simps replacePlaceholder_literal)
  next
    case (Ph n)
    show ?thesis
    proof (cases "n = name")
      case True
      have "replacePlaceholder name r scanned (placeholder name @ template_text segs)
              = r @ template_text (map (fill name r) segs)"
        using assms(3) ih
        by (subst replacePlaceholder.simps)
           (simp add: placeholder_def getSubstitution_plain clean_def)
      with Ph True show ?thesis by (simp add: template_text_simps)
    next
      case False
      from wf Ph have n: "CHR ''{'' \<notin> set n" "CHR ''}'' \<notin> set n" by simp_all
      have np: "\<not> prefix (placeholder name) (placeholder n @ template_text segs)"
        using same_name [OF assms(2) n(2), of "template_text segs"] False
        by (auto simp add: placeholder_def)
      have "replacePlaceholder name r scanned (placeholder n @ template_text segs)
              = CHR ''{'' # replacePlaceholder name r (scanned @ ''{'')
                             ((n @ ''}'') @ template_text segs)"
        using np by (subst replacePlaceholder.simps) (simp add: placeholder_def)
      also have "\<dots> = CHR ''{'' # (n @ ''}'') @ template_text (map (fill name r) segs)"
      proof -
        from n(1) have "CHR ''{'' \<notin> set (n @ ''}'')" by simp
        from replacePlaceholder_literal [OF this] ih show ?thesis by simp
      qed
      finally show ?thesis
        using Ph False by (simp add: template_text_simps placeholder_def)
    qed
  qed
qed

lemma fill_wf:
  "list_all wf_segment segs \<Longrightarrow> clean r \<Longrightarrow> list_all wf_segment (map (fill name r) segs)"
proof (induction segs)
  case Nil
  then show ?case by simp
next
  case (Cons seg segs)
  then show ?case by (cases seg) (simp_all add: clean_def)
qed

lemma replace_g_segments:
  "list_all wf_segment segs \<Longrightarrow> CHR ''}'' \<notin> set name \<Longrightarrow> clean r \<Longrightarrow>
   replace_g name r (template_text segs) = template_text (map (fill name r) segs)"
  by (simp add: replace_g_def replacePlaceholder_segments)

lemma set_trim: "set (trim s) \<subseteq> set s"
proof -
  have "set (trim s) \<subseteq> set (rev (dropWhile is_space s))"
    unfolding trim_def by (metis set_dropWhileD set_rev subsetI)
  also have "\<dots> \<subseteq> set s"
    by (metis set_dropWhileD set_rev subsetI)
  finally show ?thesis .
qed

lemma clean_fullName:
  "clean (firstName lead) \<Longrightarrow> clean (or_empty (lastName lead)) \<Longrightarrow> clean (fullName lead)"
  using set_trim [of "firstName lead @ '' '' @ or_empty (lastName lead)"]
  by (auto simp add: clean_def fullName_def)

lemma clean_lead_values:
  assumes "list_all clean (lead_values lead)"
  shows "clean (firstName lead)" and "clean (or_empty (lastName lead))"
    and "clean (or_empty (company lead))" and "clean (or_empty (jobTitle lead))"
  using assms
  by (auto simp add: lead_values_def or_empty_def clean_def split: option.splits)

lemma fill_five:
  "segment_text
     (fill ''jobTitle'' (or_empty (jobTitle lead))
       (fill ''company'' (or_empty (company lead))
         (fill ''fullName'' (fullName lead)
           (fill ''lastName'' (or_empty (lastName lead))
             (fill ''firstName'' (firstName lead) seg)))))
   = spec_render lead seg"
  by (cases seg) (simp_all add: spec_value_def or_empty_def)

lemma replacePlaceholders_segments:
  assumes "list_all wf_segment segs" and "list_all clean (lead_values lead)"
  shows "replacePlaceholders (template_text segs) lead = concat (map (spec_render lead) segs)"
proof -
  note v = clean_lead_values [OF assms(2)]
  note full = clean_fullName [OF v(1,2)]
  define s1 where "s1 = map (fill ''firstName'' (firstName lead)) segs"
  define s2 where "s2 = map (fill ''lastName'' (or_empty (lastName lead))) s1"
  define s3 where "s3 = map (fill ''fullName'' (fullName lead)) s2"
  define s4 where "s4 = map (fill ''company'' (or_empty (company lead))) s3"
  define s5 where "s5 = map (fill ''jobTitle'' (or_empty (jobTitle lead))) s4"
  have w1: "list_all wf_segment s1" unfolding s1_def using assms(1) v(1) by (rule fill_wf)
  have w2: "list_all wf_segment s2" unfolding s2_def using w1 v(2) by (rule fill_wf)
  have w3: "list_all wf_segment s3" unfolding s3_def using w2 full by (rule fill_wf)
  have w4: "list_all wf_segment s4" unfolding s4_def using w3 v(3) by (rule fill_wf)
  have r1: "replace_g ''firstName'' (firstName lead) (template_text segs) = template_text s1"
    unfolding s1_def using assms(1) v(1) by (simp add: replace_g_segments)
  have r2: "replace_g ''lastName'' (or_empty (lastName lead)) (template_text s1)
              = template_text s2"
    unfolding s2_def using w1 v(2) by (simp add: replace_g_segments)
  have r3: "replace_g ''fullName'' (fullName lead) (template_text s2) = template_text s3"
    unfolding s3_def using w2 full by (simp add: replace_g_segments)
  have r4: "replace_g ''company'' (or_empty (company lead)) (template_text s3)
              = template_text s4"
    unfolding s4_def using w3 v(3) by (simp add: replace_g_segments)
  have r5: "replace_g ''jobTitle'' (or_empty (jobTitle lead)) (template_text s4)
              = template_text s5"
    unfolding s5_def using w4 v(4) by (simp add: replace_g_segments)
  have "replacePlaceholders (template_text segs) lead = template_text s5"
    unfolding replacePlaceholders_def by (simp only: r1 r2 r3 r4 r5)
  also have "\<dots> = concat (map (spec_render lead) segs)"
    unfolding s5_def s4_def s3_def s2_def s1_def
    by (simp add: template_text_def fill_five comp_def)
  finally show ?thesis .
qed

text \<open>
  C6, amended. The substitution replaces \<open>{firstName}\<close>, \<open>{lastName}\<close>, \<open>{fullName}\<close>,
  \<open>{company}\<close> and \<open>{jobTitle}\<close> from the lead record, and nothing else. A template in
  which none of the five occurs is rendered unchanged, whatever other \<open>{...}\<close> it holds.
  A well-formed template, for a lead whose first name, last name, company and job title
  are clean, is rendered piece by piece: literal text as it is, each of the five known
  placeholders as the lead's value (an absent last name, company or job title as the
  empty string, the full name as first and last name trimmed), every other placeholder
  as it is written. The template "Hi {firstName}, is this {fullName}?" renders
  "Hi Ana, is this Ana Lee?" for a lead named Ana Lee; for a lead named Ana with no
  last name, \<open>{fullName}\<close> renders "Ana".
\<close>

theorem replacePlaceholders_known_only:
  "(\<not> str_includes template (placeholder ''firstName'')
    \<and> \<not> str_includes template (placeholder ''lastName'')
    \<and> \<not> str_includes template (placeholder ''fullName'')
    \<and> \<not> str_includes template (placeholder ''company'')
    \<and> \<not> str_includes template (placeholder ''jobTitle'')
    \<longrightarrow> replacePlaceholders template lead = template)
   \<and> (list_all wf_segment segs \<and> list_all clean (lead_values lead)
    \<longrightarrow> replacePlaceholders (template_text segs) lead
          = concat (map (spec_render lead) segs))
   \<and> replacePlaceholders ''Hi {firstName}, is this {fullName}?''
         (lead\<lparr>firstName := ''Ana'', lastName := Some ''Lee''\<rparr>)
       = ''Hi Ana, is this Ana Lee?''
   \<and> replacePlaceholders ''{firstName} {lastName} of {company} ({jobTitle})''
         (lead\<lparr>firstName := ''Ana'', lastName := None, company := None, jobTitle := None\<rparr>)
       = ''Ana  of  ()''
   \<and> replacePlaceholders ''{fullName}!'' (lead\<lparr>firstName := ''Ana'', lastName := None\<rparr>)
       = ''Ana!''"
proof -
  have a: "\<not> str_includes template (placeholder ''firstName'')
    \<and> \<not> str_includes template (placeholder ''lastName'')
    \<and> \<not> str_includes template (placeholder ''fullName'')
    \<and> \<not> str_includes template (placeholder ''company'')
    \<and> \<not> str_includes template (placeholder ''jobTitle'')
    \<longrightarrow> replacePlaceholders template lead = template"
    by (simp add: replacePlaceholders_def replace_g_absent)
  have s: "list_all wf_segment segs \<and> list_all clean (lead_values lead)
    \<longrightarrow> replacePlaceholders (template_text segs) lead
          = concat (map (spec_render lead) segs)"
    using replacePlaceholders_segments by blast
  have b: "replacePlaceholders ''Hi {firstName}, is this {fullName}?''
         (lead\<lparr>firstName := ''Ana'', lastName := Some ''Lee''\<rparr>)
       = ''Hi Ana, is this Ana Lee?''"
    by (simp add: replacePlaceholders_def replace_g_def replacePlaceholder.simps placeholder_def
        fullName_def trim_def is_space_def or_empty_def)
  have c: "replacePlaceholders ''{firstName} {lastName} of {company} ({jobTitle})''
         (lead\<lparr>firstName := ''Ana'', lastName := None, company := None, jobTitle := None\<rparr>)
       = ''Ana  of  ()''"
    by (simp add: replacePlaceholders_def replace_g_def replacePlaceholder.simps placeholder_def
        fullName_def trim_def is_space_def or_empty_def)
  have d: "replacePlaceholders ''{fullName}!'' (lead\<lparr>firstName := ''Ana'', lastName := None\<rparr>)
       = ''Ana!''"
    by (simp add: replacePlaceholders_def replace_g_def replacePlaceholder.simps placeholder_def
        fullName_def trim_def is_space_def or_empty_def)
  from a s b c d show ?thesis by blast
qed

lemma bea_values:
  "firstName bea = ''Bea''" "lastName bea = Some ''Roy''" "company bea = Some ''Acme''"
  "jobTitle bea = Some ''CTO''" "fullName bea = ''Bea Roy''"
  by (simp_all add: bea_def fullName_def trim_def is_space_def or_empty_def)

theorem replacePlaceholders_known_only_witness:
  "\<not> str_includes ''Hi {nickname}!'' (placeholder ''firstName'')
    \<and> \<not> str_includes ''Hi {nickname}!'' (placeholder ''lastName'')
    \<and> \<not> str_includes ''Hi {nickname}!'' (placeholder ''fullName'')
    \<and> \<not> str_includes ''Hi {nickname}!'' (placeholder ''company'')
    \<and> \<not> str_includes ''Hi {nickname}!'' (placeholder ''jobTitle'')
    \<and> replacePlaceholders ''Hi {nickname}!'' ana = ''Hi {nickname}!''
    \<and> list_all wf_segment letter \<and> list_all clean (lead_values bea)
    \<and> template_text letter
        = ''Dear {title} {firstName} {lastName} ({jobTitle} at {company}), are you {fullName}?''
    \<and> replacePlaceholders
         ''Dear {title} {firstName} {lastName} ({jobTitle} at {company}), are you {fullName}?''
         bea
        = ''Dear {title} Bea Roy (CTO at Acme), are you Bea Roy?''"
proof -
  have wf: "list_all wf_segment letter" by (simp add: letter_def)
  have cl: "list_all clean (lead_values bea)"
    by (simp add: lead_values_def clean_def bea_values)
  have tx: "template_text letter
        = ''Dear {title} {firstName} {lastName} ({jobTitle} at {company}), are you {fullName}?''"
    by (simp add: letter_def template_text_def)
  have rn: "concat (map (spec_render bea) letter)
        = ''Dear {title} Bea Roy (CTO at Acme), are you Bea Roy?''"
    by (simp add: letter_def spec_value_def bea_values)
  from replacePlaceholders_known_only [of "''Hi {nickname}!''" ana letter]
    replacePlaceholders_known_only [of "''Hi {nickname}!''" bea letter] wf cl tx rn
  show ?thesis by (simp add: placeholder_def)
qed

section \<open>Lead feedback\<close>

lemma sentiment_adjust_case:
  "(if truthy sentiment
    then (case js_get sentiment ''overall'' of
            Inl e \<Rightarrow> Inl e
          | Inr overall \<Rightarrow>
              if overall = JStr ''positive'' then Inr (c + 5)
              else if overall = JStr ''negative'' then Inr (c - 5)
              else Inr c)
    else Inr c) = (Inr (c + spec_sentiment_adjust sentiment) :: error + int)"
  by (cases sentiment) (simp_all add: spec_sentiment_adjust_def)

lemma score_switch_delta: "fst (score_switch lead outcome) = spec_outcome_delta outcome"
  by (simp add: score_switch_def spec_outcome_delta_def)

lemma score_switch_score: "score (snd (score_switch lead outcome)) = score lead"
  by (simp add: score_switch_def)

lemma score_switch_wrong_number:
  "snd (score_switch lead ''wrong-number'') =
     lead\<lparr>status := ''do-not-call'', doNotCall := True, doNotCallReason := Some ''Wrong number''\<rparr>"
  by (simp add: score_switch_def)

lemma updateScore_closed_form:
  "updateScore lead outcome sentiment now =
     Inr ((snd (score_switch lead outcome))
          \<lparr>score := max 0 (min 100 (score lead + (spec_outcome_delta outcome
                                                  + spec_sentiment_adjust sentiment))),
            totalCalls := totalCalls (snd (score_switch lead outcome)) + 1,
            lastCallDate := Some now\<rparr>)"
proof -
  obtain c l where sw: "score_switch lead outcome = (c, l)"
    by (cases "score_switch lead outcome")
  from sw have c: "c = spec_outcome_delta outcome"
    using score_switch_delta [of lead outcome] by simp
  from sw have l: "score l = score lead"
    using score_switch_score [of lead outcome] by simp
  show ?thesis
    unfolding updateScore_def sw
    by (simp only: prod.case sentiment_adjust_case sum.case snd_conv c l)
qed

text \<open>
  C7. For every lead, outcome and sentiment, \<open>updateScore\<close> returns, and the new score is
  the old one plus the delta of the outcome (sale +30, interested +20, callback +10,
  not-interested -15, wrong-number -30, anything else -5) plus 5 for a positive and minus 5
  for a negative overall sentiment, clamped to the range from 0 to 100. The outcome
  wrong-number sets \<open>doNotCall\<close> and the status do-not-call, so the lead is no longer
  callable; on a lead with score 50 and no sentiment it gives score 20.
\<close>

theorem updateScore_delta_table:
  "\<exists>lead'. updateScore lead outcome sentiment now = Inr lead'
      \<and> score lead' =
          max 0 (min 100 (score lead + spec_outcome_delta outcome
                            + spec_sentiment_adjust sentiment))
      \<and> (outcome = ''wrong-number'' \<longrightarrow>
            doNotCall lead' \<and> status lead' = ''do-not-call'' \<and> \<not> isCallable lead')"
  by (simp add: updateScore_closed_form score_switch_wrong_number isCallable_def add.assoc)

theorem updateScore_delta_table_witness:
  "\<exists>lead'. updateScore ana ''wrong-number'' JUndefined 7 = Inr lead'
      \<and> score ana = 50 \<and> score lead' = 20
      \<and> doNotCall lead' \<and> status lead' = ''do-not-call'' \<and> \<not> isCallable lead'"
  using updateScore_delta_table [of ana "''wrong-number''" JUndefined 7]
  by (simp add: spec_outcome_delta_def spec_sentiment_adjust_def ana_def)

section \<open>The sample call\<close>

lemma demo_fields:
  "campaign_id demo = ''K1''"
  "script_opening demo = Some ''Hi {firstName}, is this {fullName}?''"
  "script_closing demo = None" "voice demo = None" "language demo = None"
  by (simp_all add: demo_def)

lemma answers_fields:
  "time_customer answers = 2000" "time_agent answers = 3000"
  "aiResponse answers = ''What is your budget?''" "state_save_ok answers"
  "endTime answers = 5000"
  "sentiment_result answers = JObj [(''overall'', JStr ''neutral''), (''score'', JNum 0)]"
  "extracted_result answers = JObj []" "summary_result answers = ''Short call.''"
  "new_call_id answers = ''C1''" "call_save_ok answers" "stats_ok answers"
  by (simp_all add: answers_def)

lemma opening_ana:
  "replacePlaceholders ''Hi {firstName}, is this {fullName}?'' ana = ''Hi Ana, is this Ana Lee?''"
  by (simp add: replacePlaceholders_def replace_g_def replacePlaceholder.simps placeholder_def
      ana_def fullName_def trim_def is_space_def or_empty_def)

lemma first_init_eq:
  "first_init =
     (0, \<lparr>activeConversations = [''CA1'' \<mapsto> 0],
          heap = (\<lambda>r. blank)
            (0 := \<lparr>callSid = ''CA1'', leadId = lead_id ana, campaignId = campaign_id demo,
                   conv_lead = ana, conv_campaign = demo, conversationHistory = [],
                   currentStep = ''opening'', startTime = 1000,
                   callContext = \<lparr>callNumber = totalCalls ana + 1, timeOfDay = ''morning''\<rparr>\<rparr>),
          next_ref = 1, writes = []\<rparr>)"
  by (simp add: first_init_def initializeConversation_def idle_def Let_def getTimeOfDay_def)

lemma opened_eq:
  "opened =
     \<lparr>activeConversations = [''CA1'' \<mapsto> 0],
      heap = (\<lambda>r. blank)
        (0 := \<lparr>callSid = ''CA1'', leadId = lead_id ana, campaignId = campaign_id demo,
               conv_lead = ana, conv_campaign = demo,
               conversationHistory =
                 [\<lparr>speaker = ''agent'', message = ''Hi Ana, is this Ana Lee?'',
                   timestamp = 1001\<rparr>],
               currentStep = ''opening'', startTime = 1000,
               callContext = \<lparr>callNumber = totalCalls ana + 1, timeOfDay = ''morning''\<rparr>\<rparr>),
      next_ref = 1, writes = []\<rparr>"
  by (simp add: opened_def first_init_eq generateOpeningMessage_def Let_def push_turn_def
      or_default_def opening_ana demo_fields)

lemma no_end_tell_me_more: "\<not> shouldEndCall ''tell me more''"
  by (simp add: shouldEndCall_def toLowerCase_def toLowerCase_unit_def terminationPhrases_def)

lemma speaking_eq:
  "speaking =
     (AwaitingResponse 0,
      \<lparr>activeConversations = [''CA1'' \<mapsto> 0],
       heap = (\<lambda>r. blank)
         (0 := \<lparr>callSid = ''CA1'', leadId = lead_id ana, campaignId = campaign_id demo,
                conv_lead = ana, conv_campaign = demo,
                conversationHistory =
                  [\<lparr>speaker = ''agent'', message = ''Hi Ana, is this Ana Lee?'',
                    timestamp = 1001\<rparr>,
                   \<lparr>speaker = ''customer'', message = ''tell me more'', timestamp = 2000\<rparr>],
                currentStep = ''opening'', startTime = 1000,
                callContext = \<lparr>callNumber = totalCalls ana + 1, timeOfDay = ''morning''\<rparr>\<rparr>),
       next_ref = 1, writes = []\<rparr>)"
  by (simp add: speaking_def opened_eq handleCustomerSpeech_begin_def Let_def push_turn_def
      no_end_tell_me_more answers_fields)

lemma outcome_one_turn:
  "determineCallOutcome
     [\<lparr>speaker = ''agent'', message = ''Hi Ana, is this Ana Lee?'', timestamp = 1001\<rparr>,
      \<lparr>speaker = ''customer'', message = ''tell me more'', timestamp = 2000\<rparr>]
     (JObj []) ''completed'' = Inr ''no-answer''"
  by (simp add: determineCallOutcome_def customerMessages_def)


lemma ended_snd:
  "activeConversations (snd ended) ''CA1'' = None
   \<and> conversationHistory (heap (snd ended) 0) =
       [\<lparr>speaker = ''agent'', message = ''Hi Ana, is this Ana Lee?'', timestamp = 1001\<rparr>,
        \<lparr>speaker = ''customer'', message = ''tell me more'', timestamp = 2000\<rparr>]
   \<and> callSid (heap (snd ended) 0) = ''CA1''"
  by (simp add: ended_def speaking_eq endConversation_def endConversation_lookup_def
      endConversation_continue_def endConversation_resolve_def endConversation_document_def
      endConversation_saved_def endConversation_finish_def Let_def answers_fields
      outcome_one_turn)

section \<open>Unknown calls\<close>

text \<open>
  C3, as claimed, fails: a customer turn for a call SID that was never initialized does
  not fail with an error. The handler answers like any other turn, with a TwiML document:
  the hang-up message "Thank you for calling. Goodbye!".
\<close>

theorem handleCustomerSpeech_unknown_counterexample:
  "handleCustomerSpeech idle ''CALL-X'' ''hello'' answers
     = (Hangup ''Thank you for calling. Goodbye!'', idle)"
  by (simp add: handleCustomerSpeech_def handleCustomerSpeech_begin_def idle_def)

text \<open>
  C3, amended. A customer turn for a call SID with no active conversation is rejected
  with the hang-up reply "Thank you for calling. Goodbye!" and changes nothing: the
  service's state is the same afterwards, so no conversation exists for that call SID
  and no write was issued to any store.
\<close>

theorem handleCustomerSpeech_unknown:
  assumes "activeConversations st sid = None"
  shows "handleCustomerSpeech st sid customerSpeech e
           = (Hangup ''Thank you for calling. Goodbye!'', st)
         \<and> getConversation (snd (handleCustomerSpeech st sid customerSpeech e)) sid = None
         \<and> writes (snd (handleCustomerSpeech st sid customerSpeech e)) = writes st"
  using assms
  by (simp add: handleCustomerSpeech_def handleCustomerSpeech_begin_def getConversation_def)

theorem handleCustomerSpeech_unknown_witness:
  "activeConversations idle ''CALL-X'' = None
   \<and> handleCustomerSpeech idle ''CALL-X'' ''hello'' answers
        = (Hangup ''Thank you for calling. Goodbye!'', idle)
   \<and> getConversation (snd (handleCustomerSpeech idle ''CALL-X'' ''hello'' answers)) ''CALL-X''
        = None
   \<and> writes (snd (handleCustomerSpeech idle ''CALL-X'' ''hello'' answers)) = writes idle"
proof -
  have h: "activeConversations idle ''CALL-X'' = None" by (simp add: idle_def)
  from handleCustomerSpeech_unknown [OF h, of "''hello''" answers] h show ?thesis by blast
qed

section \<open>Initializing twice\<close>

text \<open>
  C4, as claimed, fails: after the conversation of call CA1 has been initialized at time
  1000 and its opening message recorded, a second initialization at time 2000 is accepted
  and the state registered for CA1 has an empty transcript and start time 2000.
\<close>

theorem initializeConversation_twice_counterexample:
  "map_option conversationHistory (getConversation opened ''CA1'') =
     Some [\<lparr>speaker = ''agent'', message = ''Hi Ana, is this Ana Lee?'', timestamp = 1001\<rparr>]
   \<and> map_option startTime (getConversation opened ''CA1'') = Some 1000
   \<and> map_option conversationHistory (getConversation (snd second_init) ''CA1'') = Some []
   \<and> map_option startTime (getConversation (snd second_init) ''CA1'') = Some 2000"
  by (simp add: second_init_def initializeConversation_def Let_def getConversation_def opened_eq)

text \<open>
  C4, amended. \<open>initializeConversation\<close> has no duplicate check: whatever is registered
  before, also a state for the same call SID, it succeeds, and afterwards the state
  registered for the call SID is a fresh one, with an empty transcript, phase opening and
  the time of this call as its start.
\<close>

theorem initializeConversation_fresh:
  "getConversation (snd (initializeConversation st sid lead campaign now hour)) sid =
     Some \<lparr>callSid = sid, leadId = lead_id lead, campaignId = campaign_id campaign,
           conv_lead = lead, conv_campaign = campaign, conversationHistory = [],
           currentStep = ''opening'', startTime = now,
           callContext = \<lparr>callNumber = totalCalls lead + 1, timeOfDay = getTimeOfDay hour\<rparr>\<rparr>"
  by (simp add: initializeConversation_def getConversation_def Let_def)

section \<open>Ending a conversation\<close>












text \<open>
  With a live conversation, stores that take the writes, and objects as the extraction
  and sentiment results, \<open>endConversation\<close> succeeds.
\<close>

lemma determineCallOutcome_returns:
  "\<exists>outcome. determineCallOutcome history (JObj info) reason = Inr outcome"
  by (simp add: determineCallOutcome_def)

lemma endConversation_succeeds:
  assumes "activeConversations st sid = Some r"
    and "call_save_ok e" and "stats_ok e"
    and "extracted_result e = JObj info" and "sentiment_result e = JObj senti"
  shows "\<exists>summary st'. endConversation st sid reason e = (Inr (Some summary), st')"
proof -
  obtain outcome where
    "determineCallOutcome (conversationHistory (heap st r)) (JObj info) reason = Inr outcome"
    using determineCallOutcome_returns by blast
  with assms show ?thesis
    by (simp add: endConversation_def endConversation_lookup_def endConversation_continue_def
        endConversation_resolve_def endConversation_document_def endConversation_saved_def
        endConversation_finish_def Let_def)
qed

subsection \<open>The sample call, finalized twice\<close>

















section \<open>A response that arrives after the end\<close>

lemma updateConversationStep_keeps:
  "conversationHistory (updateConversationStep c response) = conversationHistory c"
  "callSid (updateConversationStep c response) = callSid c"
  by (simp_all add: updateConversationStep_def Let_def split: option.splits prod.splits)

lemma resume_effect:
  "activeConversations (snd (handleCustomerSpeech_resume st sid r e)) = activeConversations st
   \<and> conversationHistory (heap (snd (handleCustomerSpeech_resume st sid r e)) r) =
       conversationHistory (heap st r)
         @ [\<lparr>speaker = ''agent'', message = aiResponse e, timestamp = time_agent e\<rparr>]
   \<and> writes (snd (handleCustomerSpeech_resume st sid r e)) =
       writes st
         @ (if state_save_ok e
            then [CallUpserted (callSid (heap st r))
                    (conversationHistory (heap st r)
                       @ [\<lparr>speaker = ''agent'', message = aiResponse e,
                           timestamp = time_agent e\<rparr>])
                    ''in-progress'']
            else [])"
  by (simp add: handleCustomerSpeech_resume_def Let_def saveConversationState_def
      updateConversationStep_keeps push_turn_def)

text \<open>
  C9, as claimed, fails. In the sample call the handler of the customer's turn waits for
  the response generator when the status webhook ends the conversation (the call SID is
  removed from the active conversations). The handler, resumed with the generator's
  answer, appends it as an agent turn to the conversation object it holds and writes the
  longer transcript, with status in-progress, to the call's record.
\<close>

theorem late_response_counterexample:
  "fst speaking = AwaitingResponse 0
   \<and> activeConversations (snd ended) ''CA1'' = None
   \<and> conversationHistory (heap (snd ended) 0) =
       [\<lparr>speaker = ''agent'', message = ''Hi Ana, is this Ana Lee?'', timestamp = 1001\<rparr>,
        \<lparr>speaker = ''customer'', message = ''tell me more'', timestamp = 2000\<rparr>]
   \<and> conversationHistory (heap (snd late) 0) =
       [\<lparr>speaker = ''agent'', message = ''Hi Ana, is this Ana Lee?'', timestamp = 1001\<rparr>,
        \<lparr>speaker = ''customer'', message = ''tell me more'', timestamp = 2000\<rparr>,
        \<lparr>speaker = ''agent'', message = ''What is your budget?'', timestamp = 3000\<rparr>]
   \<and> writes (snd late) =
       writes (snd ended)
         @ [CallUpserted ''CA1''
              [\<lparr>speaker = ''agent'', message = ''Hi Ana, is this Ana Lee?'', timestamp = 1001\<rparr>,
               \<lparr>speaker = ''customer'', message = ''tell me more'', timestamp = 2000\<rparr>,
               \<lparr>speaker = ''agent'', message = ''What is your budget?'', timestamp = 3000\<rparr>]
              ''in-progress'']"
  using ended_snd resume_effect [of "snd ended" "''CA1''" 0 answers]
  by (simp add: late_def speaking_eq answers_fields)

text \<open>
  C9, amended. A generator response is never discarded. Whatever has happened to the
  call's state during the wait, also when the conversation has been ended and removed,
  the resumed handler appends the response as an agent turn to the conversation object it
  holds and, if the store takes the write, upserts the call's record with that transcript
  and status in-progress. It does not put the conversation back: the active conversations
  are the same before and after.
\<close>

theorem late_response_appended:
  "activeConversations (snd (handleCustomerSpeech_resume st sid r e)) = activeConversations st
   \<and> conversationHistory (heap (snd (handleCustomerSpeech_resume st sid r e)) r) =
       conversationHistory (heap st r)
         @ [\<lparr>speaker = ''agent'', message = aiResponse e, timestamp = time_agent e\<rparr>]
   \<and> writes (snd (handleCustomerSpeech_resume st sid r e)) =
       writes st
         @ (if state_save_ok e
            then [CallUpserted (callSid (heap st r))
                    (conversationHistory (heap st r)
                       @ [\<lparr>speaker = ''agent'', message = aiResponse e,
                           timestamp = time_agent e\<rparr>])
                    ''in-progress'']
            else [])"
  by (rule resume_effect)

end
